theory Spec2Isabelle
  imports Complex_Main "HOL-Library.Sublist" "HOL-Library.Multiset"
begin

section \<open>Conventions of the embedding\<close>

text \<open>
  The Python sources compute with IEEE doubles; the embedding idealises them as the
  mathematical reals (\<^typ>\<open>real\<close>), so rounding and NaN are outside the model. Overflow is
  modelled where the source can reach it, in the power of \<^verbatim>\<open>rssi_to_distance\<close>: a result
  above the largest double \<open>float_max\<close> raises \<^verbatim>\<open>OverflowError\<close> in Python's own float
  arithmetic and is infinite in numpy's.
  A \<^verbatim>\<open>datetime\<close> is a real number of days, so that adding a \<^verbatim>\<open>timedelta(days=d)\<close> is
  the addition of \<open>d\<close>. A \<^verbatim>\<open>Dict[str, float]\<close> is an association list in which the first
  binding of a key is the dictionary's entry; its keys are the distinct first components.
\<close>

type_synonym datetime = real

type_synonym features = "(string \<times> real) list"

definition dict_keys :: "features \<Rightarrow> string list" where
  "dict_keys f = remdups (map fst f)"

datatype py_error = ZeroDivisionError | IndexError | OverflowError

datatype float_kind = PythonFloat | NumpyFloat64

definition float_max :: real where
  "float_max = 2 ^ 1024 - 2 ^ 971"

section \<open>predictive\_analytics\_engine.py: health scoring\<close>

datatype risk_level = Low | Medium | High | Critical

text \<open>
  The body of \<^verbatim>\<open>calculate_health_score\<close> is a sequence of updates of \<^verbatim>\<open>score\<close>. Each
  update is one function here, in the order of the source.
\<close>

definition rssi_mean_step :: "features \<Rightarrow> real \<Rightarrow> real" where
  "rssi_mean_step f score =
     (case map_of f ''rssi_mean'' of
        None \<Rightarrow> score
      | Some rssi \<Rightarrow>
          if rssi < - 70 then score - 20
          else if rssi < - 60 then score - 10
          else score)"

definition rssi_std_step :: "features \<Rightarrow> real \<Rightarrow> real" where
  "rssi_std_step f score =
     (case map_of f ''rssi_mean'' of
        None \<Rightarrow> score
      | Some rssi \<Rightarrow>
          (case map_of f ''rssi_std'' of
             None \<Rightarrow> score
           | Some sd \<Rightarrow> if sd > 10 then score - 15 else score))"

definition response_time_step :: "features \<Rightarrow> real \<Rightarrow> real" where
  "response_time_step f score =
     (case map_of f ''response_time_mean'' of
        None \<Rightarrow> score
      | Some rt \<Rightarrow>
          if rt > 1000 then score - 25
          else if rt > 500 then score - 15
          else score)"

definition response_trend_step :: "features \<Rightarrow> real \<Rightarrow> real" where
  "response_trend_step f score =
     (case map_of f ''response_time_mean'' of
        None \<Rightarrow> score
      | Some rt \<Rightarrow>
          (case map_of f ''response_time_trend'' of
             None \<Rightarrow> score
           | Some tr \<Rightarrow> if tr > 0 then score - 10 else score))"

definition uptime_step :: "features \<Rightarrow> real \<Rightarrow> real" where
  "uptime_step f score =
     (case map_of f ''uptime_ratio'' of
        None \<Rightarrow> score
      | Some uptime \<Rightarrow> score * uptime)"

definition disconnect_step :: "features \<Rightarrow> real \<Rightarrow> real" where
  "disconnect_step f score =
     (case map_of f ''disconnect_events'' of
        None \<Rightarrow> score
      | Some disconnects \<Rightarrow> score - min (disconnects * 5) 30)"

definition error_rate_step :: "features \<Rightarrow> real \<Rightarrow> real" where
  "error_rate_step f score =
     (case map_of f ''error_rate'' of
        None \<Rightarrow> score
      | Some error_rate \<Rightarrow> score - min (error_rate * 100) 40)"

definition temp_step :: "features \<Rightarrow> real \<Rightarrow> real" where
  "temp_step f score =
     (case map_of f ''temp_max'' of
        None \<Rightarrow> score
      | Some t \<Rightarrow> if t > 85 then score - 20 else score)"

definition power_step :: "features \<Rightarrow> real \<Rightarrow> real" where
  "power_step f score =
     (case map_of f ''power_trend'' of
        None \<Rightarrow> score
      | Some p \<Rightarrow> if p > 0 then score - 10 else score)"

definition calculate_health_score :: "features \<Rightarrow> real" where
  "calculate_health_score f =
     (let score = 100;
          score = rssi_mean_step f score;
          score = rssi_std_step f score;
          score = response_time_step f score;
          score = response_trend_step f score;
          score = uptime_step f score;
          score = disconnect_step f score;
          score = error_rate_step f score;
          score = temp_step f score;
          score = power_step f score
      in max 0 (min 100 score))"

definition determine_risk_level :: "real \<Rightarrow> risk_level" where
  "determine_risk_level health_score =
     (if health_score \<ge> 80 then Low
      else if health_score \<ge> 60 then Medium
      else if health_score \<ge> 30 then High
      else Critical)"

text \<open>
  \<^verbatim>\<open>predict_failure_date\<close>: \<^verbatim>\<open>failure_threshold\<close> is 30 and \<^verbatim>\<open>prediction_window_days\<close>
  is 30, as the constructor sets them. The test \<^verbatim>\<open>'trend' in k\<close> on a key is Python's
  substring test, \<^const>\<open>sublist\<close> on character lists. \<^verbatim>\<open>features[k]\<close> is read for keys of
  the dictionary only, so the lookup never misses.
\<close>

definition failure_threshold :: real where
  "failure_threshold = 30"

definition prediction_window_days :: real where
  "prediction_window_days = 30"

definition trend_features :: "features \<Rightarrow> string list" where
  "trend_features f = filter (\<lambda>k. sublist ''trend'' k) (dict_keys f)"

definition negative_trends :: "features \<Rightarrow> nat" where
  "negative_trends f =
     length (filter (\<lambda>k. case map_of f k of Some v \<Rightarrow> v < 0 | None \<Rightarrow> False)
               (trend_features f))"

definition predict_failure_date :: "features \<Rightarrow> datetime \<Rightarrow> datetime option \<times> real" where
  "predict_failure_date f now =
     (let health_score = calculate_health_score f in
      if health_score > 70 then (None, 0)
      else if negative_trends f > 0 then
        (let degradation_rate = (100 - health_score) / prediction_window_days;
             confidence = min 0.9 (0.5 + real (negative_trends f) * 0.1);
             days_to_failure = max 1 ((health_score - failure_threshold) / degradation_rate)
         in (Some (now + days_to_failure), confidence))
      else (None, 0))"

text \<open>
  The rules of the scorer as data, to state what reordering them does. \<open>apply_rule\<close>
  runs one update of the source; \<open>source_order\<close> is the order the source runs them in.
\<close>

datatype rule = RssiMean | RssiStd | ResponseTime | ResponseTrend | Uptime
  | Disconnects | ErrorRate | Overheating | PowerDrift

fun apply_rule :: "features \<Rightarrow> rule \<Rightarrow> real \<Rightarrow> real" where
  "apply_rule f RssiMean = rssi_mean_step f"
| "apply_rule f RssiStd = rssi_std_step f"
| "apply_rule f ResponseTime = response_time_step f"
| "apply_rule f ResponseTrend = response_trend_step f"
| "apply_rule f Uptime = uptime_step f"
| "apply_rule f Disconnects = disconnect_step f"
| "apply_rule f ErrorRate = error_rate_step f"
| "apply_rule f Overheating = temp_step f"
| "apply_rule f PowerDrift = power_step f"

definition score_in_order :: "features \<Rightarrow> rule list \<Rightarrow> real" where
  "score_in_order f rules = max 0 (min 100 (foldl (\<lambda>s r. apply_rule f r s) 100 rules))"

definition rules_before_uptime :: "rule list" where
  "rules_before_uptime = [RssiMean, RssiStd, ResponseTime, ResponseTrend]"

definition rules_after_uptime :: "rule list" where
  "rules_after_uptime = [Disconnects, ErrorRate, Overheating, PowerDrift]"

definition source_order :: "rule list" where
  "source_order = rules_before_uptime @ [Uptime] @ rules_after_uptime"

text \<open>
  The specification's reading of the trend count: features whose name ends in
  \<^verbatim>\<open>_trend\<close> and whose value is negative.
\<close>

definition spec_negative_trends :: "features \<Rightarrow> nat" where
  "spec_negative_trends f =
     length (filter (\<lambda>k. suffix ''_trend'' k \<and> (case map_of f k of Some v \<Rightarrow> v < 0 | None \<Rightarrow> False))
               (dict_keys f))"

section \<open>advanced\_signal\_processing.py: data\<close>

text \<open>
  The dataclasses of the module. Field names are those of the source, with a prefix where
  two classes share a name (\<^verbatim>\<open>device_id\<close>, \<^verbatim>\<open>timestamp\<close>, \<^verbatim>\<open>confidence\<close>), since record
  fields are global names. \<^verbatim>\<open>DevicePosition.x\<close> and \<^verbatim>\<open>.y\<close> are \<open>pos_x\<close> and \<open>pos_y\<close>; the
  \<^verbatim>\<open>value\<close> of the moving average is \<open>ewma_value\<close>.
\<close>

record SignalMeasurement =
  device_id :: string
  rssi :: real
  timestamp :: datetime
  location :: "real \<times> real"
  frequency :: real
  channel :: int
  snr :: real

record DevicePosition =
  pos_device_id :: string
  pos_x :: real
  pos_y :: real
  confidence :: real
  pos_timestamp :: datetime
  pos_method :: string

record AnomalyRegion =
  center :: "real \<times> real"
  radius :: real
  severity :: string
  anomaly_type :: string
  region_confidence :: real
  affected_devices :: "string list"
  region_timestamp :: datetime

record ReferencePoint =
  ref_device_id :: string
  ref_position :: "real \<times> real"
  rssi_range :: real
  calibrated :: bool

record KalmanFilter =
  process_variance :: real
  measurement_variance :: real
  estimate :: "real option"
  error_estimate :: real

record ExponentialWeightedMovingAverage =
  alpha :: real
  ewma_value :: "real option"

text \<open>
  The processor's state. \<^verbatim>\<open>signal_history\<close> maps a device to its deque of measurements,
  oldest first. \<^verbatim>\<open>device_positions\<close> is iterated by the source, so it is an association
  list; \<open>dict_items\<close> gives its entries, one per key.
\<close>

record AdvancedSignalProcessor =
  signal_history :: "string \<rightharpoonup> SignalMeasurement list"
  kalman_filters :: "string \<rightharpoonup> KalmanFilter"
  ewma_filters :: "string \<rightharpoonup> ExponentialWeightedMovingAverage"
  device_positions :: "(string \<times> DevicePosition) list"
  anomaly_regions :: "AnomalyRegion list"
  reference_points :: "ReferencePoint list"

fun dict_items :: "('k \<times> 'v) list \<Rightarrow> ('k \<times> 'v) list" where
  "dict_items [] = []"
| "dict_items ((k, v) # kvs) = (k, v) # dict_items (filter (\<lambda>kv. fst kv \<noteq> k) kvs)"

definition triangulation_min_points :: nat where
  "triangulation_min_points = 3"

section \<open>advanced\_signal\_processing.py: library functions\<close>

text \<open>
  \<^verbatim>\<open>np.mean\<close>, \<^verbatim>\<open>np.std\<close> (the population standard deviation) and scipy's \<^verbatim>\<open>euclidean\<close>
  on pairs. On an empty list numpy returns NaN; every call below is on a list that the
  source has checked to be non-empty, except in \<open>calculate_position_confidence\<close>, where
  the empty case is written out. Python's \<^verbatim>\<open>max\<close> of a list raises on the empty list; its
  one use is guarded by a length check.
\<close>

definition np_mean :: "real list \<Rightarrow> real" where
  "np_mean xs = sum_list xs / real (length xs)"

definition np_std :: "real list \<Rightarrow> real" where
  "np_std xs = sqrt (np_mean (map (\<lambda>x. \<bar>x - np_mean xs\<bar>\<^sup>2) xs))"

definition euclidean :: "real \<times> real \<Rightarrow> real \<times> real \<Rightarrow> real" where
  "euclidean p q = sqrt ((fst p - fst q)\<^sup>2 + (snd p - snd q)\<^sup>2)"

definition py_max :: "real list \<Rightarrow> real" where
  "py_max xs = (case xs of [] \<Rightarrow> 0 | x # rest \<Rightarrow> fold max rest x)"

fun collect :: "(py_error + 'a) list \<Rightarrow> py_error + 'a list" where
  "collect [] = Inr []"
| "collect (r # rs) =
     (case r of
        Inl e \<Rightarrow> Inl e
      | Inr x \<Rightarrow> (case collect rs of Inl e \<Rightarrow> Inl e | Inr xs \<Rightarrow> Inr (x # xs)))"

section \<open>advanced\_signal\_processing.py: smoothers\<close>

definition KalmanFilter_init :: "real \<Rightarrow> real \<Rightarrow> KalmanFilter" where
  "KalmanFilter_init pv mv =
     \<lparr>process_variance = pv, measurement_variance = mv, estimate = None, error_estimate = 1\<rparr>"

definition KalmanFilter_default :: KalmanFilter where
  "KalmanFilter_default = KalmanFilter_init (1 / 1000) (1 / 10)"

text \<open>
  \<^verbatim>\<open>KalmanFilter.update\<close> returns the new estimate and leaves the filter updated; here it
  returns both. The division raises \<^verbatim>\<open>ZeroDivisionError\<close> when its denominator is zero.
\<close>

definition kalman_update :: "KalmanFilter \<Rightarrow> real \<Rightarrow> py_error + (real \<times> KalmanFilter)" where
  "kalman_update kf measurement =
     (case estimate kf of
        None \<Rightarrow> Inr (measurement, kf\<lparr>estimate := Some measurement\<rparr>)
      | Some prediction \<Rightarrow>
          (let prediction_error = error_estimate kf + process_variance kf in
           if prediction_error + measurement_variance kf = 0 then Inl ZeroDivisionError
           else
             (let kalman_gain = prediction_error / (prediction_error + measurement_variance kf);
                  new_estimate = prediction + kalman_gain * (measurement - prediction)
              in Inr (new_estimate,
                      kf\<lparr>estimate := Some new_estimate,
                         error_estimate := (1 - kalman_gain) * prediction_error\<rparr>))))"

definition EWMA_init :: "real \<Rightarrow> ExponentialWeightedMovingAverage" where
  "EWMA_init a = \<lparr>alpha = a, ewma_value = None\<rparr>"

definition ewma_update ::
  "ExponentialWeightedMovingAverage \<Rightarrow> real \<Rightarrow> real \<times> ExponentialWeightedMovingAverage" where
  "ewma_update ew measurement =
     (let v = (case ewma_value ew of
                 None \<Rightarrow> measurement
               | Some y \<Rightarrow> alpha ew * measurement + (1 - alpha ew) * y)
      in (v, ew\<lparr>ewma_value := Some v\<rparr>))"

section \<open>advanced\_signal\_processing.py: multilateration\<close>

text \<open>
  \<^verbatim>\<open>rssi_to_distance\<close>, with the path-loss exponent as its last argument (2.0 by default
  and in every call of the module). \<^verbatim>\<open>10 ** e\<close> is \<open>10 powr e\<close>. The first argument says
  which arithmetic the signal values select. With Python's own numbers (\<open>PythonFloat\<close>)
  the division raises \<^verbatim>\<open>ZeroDivisionError\<close> on a zero divisor and the power raises
  \<^verbatim>\<open>OverflowError\<close> when its result exceeds the largest double, before the clamp is
  reached. When a signal value is a numpy float64 (\<open>NumpyFloat64\<close>), as the mean that
  \<^verbatim>\<open>triangulate_position\<close> passes is, neither raises: the quotient by zero and the
  overflowing power are infinite, and the clamp turns them into 1000.
\<close>

definition rssi_to_distance :: "float_kind \<Rightarrow> real \<Rightarrow> real \<Rightarrow> real \<Rightarrow> py_error + real" where
  "rssi_to_distance kind rssi_v reference_rssi path_loss_exponent =
     (if rssi_v \<ge> reference_rssi then Inr 1
      else
        (case kind of
           PythonFloat \<Rightarrow>
             if 10 * path_loss_exponent = 0 then Inl ZeroDivisionError
             else
               (let distance = 10 powr ((reference_rssi - rssi_v) / (10 * path_loss_exponent))
                in if distance > float_max then Inl OverflowError
                   else Inr (max 1 (min distance 1000)))
         | NumpyFloat64 \<Rightarrow>
             if 10 * path_loss_exponent = 0 then Inr 1000
             else
               (let distance = 10 powr ((reference_rssi - rssi_v) / (10 * path_loss_exponent))
                in Inr (max 1 (min distance 1000)))))"

text \<open>
  \<^verbatim>\<open>solve_triangulation\<close> hands the objective and the centroid of the anchors to scipy's
  \<^verbatim>\<open>minimize\<close>, which is a parameter here: it yields the minimiser it found, or nothing
  when it reports no success or raises. The objective reads \<^verbatim>\<open>distances[i]\<close> for every
  anchor; with too few distances that raises inside the \<^verbatim>\<open>try\<close> and the result is
  \<^verbatim>\<open>None\<close>.
\<close>

type_synonym minimizer = "(real \<times> real \<Rightarrow> real) \<Rightarrow> real \<times> real \<Rightarrow> (real \<times> real) option"

definition objective_function :: "(real \<times> real) list \<Rightarrow> real list \<Rightarrow> real \<times> real \<Rightarrow> real" where
  "objective_function positions distances point =
     sum_list (map (\<lambda>(p, d). (euclidean point p - d)\<^sup>2) (zip positions distances))"

definition solve_triangulation ::
  "minimizer \<Rightarrow> (real \<times> real) list \<Rightarrow> real list \<Rightarrow> (real \<times> real) option" where
  "solve_triangulation minimize positions distances =
     (if length positions < 3 then None
      else if length distances < length positions then None
      else minimize (objective_function positions distances)
             (np_mean (map fst positions), np_mean (map snd positions)))"

text \<open>
  \<^verbatim>\<open>calculate_position_confidence\<close>. The estimated position may be \<^verbatim>\<open>None\<close> (the source
  tests it); a pair of floats is always truthy. \<^verbatim>\<open>distances[i]\<close> raises \<^verbatim>\<open>IndexError\<close> when
  there are fewer distances than positions. With no positions at all \<^verbatim>\<open>np.mean([])\<close> is
  NaN and \<^verbatim>\<open>max(0.0, nan)\<close> is \<^verbatim>\<open>0.0\<close>.
\<close>

definition calculate_position_confidence ::
  "(real \<times> real) list \<Rightarrow> real list \<Rightarrow> (real \<times> real) option \<Rightarrow> py_error + real" where
  "calculate_position_confidence positions distances estimated_position =
     (case estimated_position of
        None \<Rightarrow> Inr 0
      | Some q \<Rightarrow>
          if length distances < length positions then Inl IndexError
          else if positions = [] then Inr 0
          else
            (let errors = map (\<lambda>(p, d). \<bar>euclidean q p - d\<bar>) (zip positions distances);
                 avg_error = np_mean errors
             in Inr (max 0 (1 - avg_error / 100))))"

definition triangulate_position ::
  "AdvancedSignalProcessor \<Rightarrow> minimizer \<Rightarrow> datetime \<Rightarrow> string \<Rightarrow> py_error + DevicePosition option" where
  "triangulate_position st minimize now dev =
     (if length (reference_points st) < triangulation_min_points then Inr None
      else
        (case signal_history st dev of
           None \<Rightarrow> Inr None
         | Some history \<Rightarrow>
             (let recent_measurements = drop (length history - 5) history in
              if length recent_measurements < 3 then Inr None
              else
                (let avg_rssi = np_mean (map rssi recent_measurements) in
                 case collect (map (\<lambda>ref_point.
                                    rssi_to_distance NumpyFloat64 avg_rssi (rssi_range ref_point) 2)
                                 (reference_points st)) of
                   Inl e \<Rightarrow> Inl e
                 | Inr distances \<Rightarrow>
                     (let positions = map ref_position (reference_points st) in
                      if length distances < 3 then Inr None
                      else
                        (case solve_triangulation minimize positions distances of
                           None \<Rightarrow> Inr None
                         | Some estimated_position \<Rightarrow>
                             (case calculate_position_confidence positions distances
                                     (Some estimated_position) of
                                Inl e \<Rightarrow> Inl e
                              | Inr c \<Rightarrow>
                                  Inr (Some \<lparr>pos_device_id = dev,
                                             pos_x = fst estimated_position,
                                             pos_y = snd estimated_position,
                                             confidence = c,
                                             pos_timestamp = now,
                                             pos_method = ''triangulation''\<rparr>))))))))"

section \<open>advanced\_signal\_processing.py: anomaly detection\<close>

text \<open>
  \<^verbatim>\<open>detect_signal_anomaly\<close>. The slices \<^verbatim>\<open>history[-10:]\<close> and \<^verbatim>\<open>history[:-10]\<close> are
  \<open>drop (n - 10)\<close> and \<open>take (n - 10)\<close> for a history of length \<open>n\<close>, and
  \<^verbatim>\<open>recent_rssi[-2]\<close> is the element at index \<open>length - 2\<close>, read only when there are two.
\<close>

definition detect_signal_anomaly ::
  "AdvancedSignalProcessor \<Rightarrow> string \<Rightarrow> SignalMeasurement \<Rightarrow> real" where
  "detect_signal_anomaly st dev measurement =
     (case signal_history st dev of
        None \<Rightarrow> 0
      | Some history \<Rightarrow>
          if length history < 10 then 0
          else
            (let recent_rssi = map rssi (drop (length history - 10) history);
                 historical_rssi = map rssi (take (length history - 10) history)
             in
             if length historical_rssi < 5 then 0
             else
               (let hist_mean = np_mean historical_rssi;
                    hist_std = np_std historical_rssi
                in
                if hist_std = 0 then 0
                else
                  (let current_z_score = \<bar>rssi measurement - hist_mean\<bar> / hist_std;
                       anomaly_score = current_z_score;
                       anomaly_score =
                         (if length recent_rssi \<ge> 2
                            \<and> recent_rssi ! (length recent_rssi - 2) - rssi measurement > 20
                          then anomaly_score + 2 else anomaly_score);
                       anomaly_score =
                         (if length recent_rssi \<ge> 5 \<and> np_std recent_rssi > 15
                          then anomaly_score + 1 else anomaly_score)
                   in min 1 (anomaly_score / 5)))))"

text \<open>
  \<^verbatim>\<open>detect_anomaly_regions\<close>. \<open>recent_anomaly\<close> is the score the first loop appends for one
  device. scikit-learn's DBSCAN is a parameter: \<open>dbscan pts i\<close> is the label of the
  \<open>i\<close>-th point of \<open>pts\<close>, \<open>-1\<close> for noise, so that there is one label per point as in
  \<^verbatim>\<open>labels_\<close>. The source iterates over the set of labels in an order Python does not fix;
  the model takes them in the order of \<open>remdups\<close>. The early returns leave
  \<^verbatim>\<open>self.anomaly_regions\<close> as it was.
\<close>

type_synonym clusterer = "(real \<times> real) list \<Rightarrow> nat \<Rightarrow> int"

definition recent_anomaly :: "AdvancedSignalProcessor \<Rightarrow> string \<Rightarrow> real" where
  "recent_anomaly st dev =
     (case signal_history st dev of
        None \<Rightarrow> 0
      | Some history \<Rightarrow>
          if length history \<ge> 5
          then np_mean (map (detect_signal_anomaly st dev) (drop (length history - 5) history))
          else 0)"

definition build_region ::
  "(string \<times> DevicePosition) list \<Rightarrow> real list \<Rightarrow> (real \<times> real) list \<Rightarrow> datetime
     \<Rightarrow> AnomalyRegion" where
  "build_region items anomaly_scores cluster_points now =
     (let positions = map (\<lambda>(d, pos). (pos_x pos, pos_y pos)) items;
          center_x = np_mean (map fst cluster_points);
          center_y = np_mean (map snd cluster_points);
          max_distance = py_max (map (\<lambda>point. euclidean (center_x, center_y) point) cluster_points);
          affected = map fst (filter (\<lambda>(d, pos).
                        euclidean (pos_x pos, pos_y pos) (center_x, center_y) \<le> max_distance) items);
          avg_anomaly_score = np_mean (map snd (filter (\<lambda>(pos, sc).
                        euclidean pos (center_x, center_y) \<le> max_distance)
                        (zip positions anomaly_scores)))
      in \<lparr>center = (center_x, center_y),
          radius = max_distance,
          severity = (if avg_anomaly_score > 0.7 then ''high'' else ''medium''),
          anomaly_type = ''signal_degradation'',
          region_confidence = avg_anomaly_score,
          affected_devices = affected,
          region_timestamp = now\<rparr>)"

definition cluster_regions ::
  "(string \<times> DevicePosition) list \<Rightarrow> real list \<Rightarrow> (real \<times> real) list \<Rightarrow> (nat \<Rightarrow> int)
     \<Rightarrow> datetime \<Rightarrow> AnomalyRegion list" where
  "cluster_regions items anomaly_scores high labels now =
     concat (map (\<lambda>cluster_id.
        if cluster_id = - 1 then []
        else
          (let cluster_points =
                 map (\<lambda>i. high ! i) (filter (\<lambda>i. labels i = cluster_id) [0..<length high])
           in if length cluster_points \<ge> 2
              then [build_region items anomaly_scores cluster_points now]
              else []))
        (remdups (map labels [0..<length high])))"

definition detect_anomaly_regions ::
  "AdvancedSignalProcessor \<Rightarrow> clusterer \<Rightarrow> datetime
     \<Rightarrow> AnomalyRegion list \<times> AdvancedSignalProcessor" where
  "detect_anomaly_regions st dbscan now =
     (let items = dict_items (device_positions st) in
      if items = [] then ([], st)
      else
        (let positions = map (\<lambda>(d, pos). (pos_x pos, pos_y pos)) items;
             anomaly_scores = map (\<lambda>(d, pos). recent_anomaly st d) items
         in
         if length positions < 3 then ([], st)
         else
           (let high_anomaly_positions =
                  map fst (filter (\<lambda>(pos, sc). sc > 0.5) (zip positions anomaly_scores))
            in
            if length high_anomaly_positions < 2 then ([], st)
            else
              (let regions = cluster_regions items anomaly_scores high_anomaly_positions
                               (dbscan high_anomaly_positions) now
               in (regions, st\<lparr>anomaly_regions := regions\<rparr>)))))"

section \<open>advanced\_signal\_processing.py: construction and sample data\<close>

definition AdvancedSignalProcessor_init :: AdvancedSignalProcessor where
  "AdvancedSignalProcessor_init =
     \<lparr>signal_history = Map.empty, kalman_filters = Map.empty, ewma_filters = Map.empty,
      device_positions = [], anomaly_regions = [], reference_points = []\<rparr>"

definition add_reference_point ::
  "AdvancedSignalProcessor \<Rightarrow> string \<Rightarrow> real \<Rightarrow> real \<Rightarrow> real \<Rightarrow> AdvancedSignalProcessor" where
  "add_reference_point st dev x y rssi_r =
     st\<lparr>reference_points := reference_points st @
          [\<lparr>ref_device_id = dev, ref_position = (x, y), rssi_range = rssi_r, calibrated = True\<rparr>]\<rparr>"

text \<open>
  The sample set-up of the module's \<^verbatim>\<open>__main__\<close> block: three routers with reference
  RSSI \<open>-30\<close>, and measurements on channel 6 at 2.4 GHz. \<open>with_history\<close> stores a
  history of such measurements, given by their RSSI values, for one device.
\<close>

definition example_processor :: AdvancedSignalProcessor where
  "example_processor =
     add_reference_point
       (add_reference_point
          (add_reference_point AdvancedSignalProcessor_init ''router_1'' 0 0 (- 30))
          ''router_2'' 100 0 (- 30))
       ''router_3'' 50 100 (- 30)"

definition example_measurement :: "string \<Rightarrow> real \<Rightarrow> SignalMeasurement" where
  "example_measurement dev r =
     \<lparr>device_id = dev, rssi = r, timestamp = 0, location = (0, 0),
      frequency = 2.4, channel = 6, snr = 20\<rparr>"

definition with_history ::
  "AdvancedSignalProcessor \<Rightarrow> string \<Rightarrow> real list \<Rightarrow> AdvancedSignalProcessor" where
  "with_history st dev rs =
     st\<lparr>signal_history := (signal_history st)(dev \<mapsto> map (example_measurement dev) rs)\<rparr>"

definition example_position :: "string \<Rightarrow> real \<Rightarrow> real \<Rightarrow> DevicePosition" where
  "example_position dev x y =
     \<lparr>pos_device_id = dev, pos_x = x, pos_y = y, confidence = 1, pos_timestamp = 0,
      pos_method = ''triangulation''\<rparr>"

text \<open>
  A sample fleet for the region detector: two devices with a 15-sample history that ends
  in ten readings of 100 after a baseline of mean 1, positioned at \<open>(0, 0)\<close> and
  \<open>(6, 8)\<close>, and a third device without history at \<open>(3, 104)\<close>.
\<close>

definition example_fleet :: AdvancedSignalProcessor where
  "example_fleet =
     (with_history
        (with_history example_processor ''dev_a''
           [0, 0, 0, 0, 5, 100, 100, 100, 100, 100, 100, 100, 100, 100, 100])
        ''dev_b'' [0, 0, 0, 0, 5, 100, 100, 100, 100, 100, 100, 100, 100, 100, 100])
     \<lparr>device_positions :=
        [(''dev_a'', example_position ''dev_a'' 0 0),
         (''dev_b'', example_position ''dev_b'' 6 8),
         (''dev_c'', example_position ''dev_c'' 3 104)]\<rparr>"

text \<open>
  The devices of a region's neighbourhood: the entries of \<^verbatim>\<open>device_positions\<close> whose
  position lies within the given radius of the given centre.
\<close>

definition devices_within ::
  "AdvancedSignalProcessor \<Rightarrow> real \<times> real \<Rightarrow> real \<Rightarrow> (string \<times> DevicePosition) list" where
  "devices_within st c r =
     filter (\<lambda>(d, pos). euclidean (pos_x pos, pos_y pos) c \<le> r) (dict_items (device_positions st))"

section \<open>Health score and risk bucket\<close>

lemma calculate_health_score_bounds:
  "0 \<le> calculate_health_score f \<and> calculate_health_score f \<le> 100"
  by (simp add: calculate_health_score_def Let_def)

text \<open>
  Claim C1. For every feature map the health score lies between 0 and 100, and the risk
  bucket is determined by the score alone: low from 80 up, medium from 60 up to 80, high
  from 30 up to 60, and critical below 30.
\<close>

theorem health_score_range_and_risk_bucket:
  "0 \<le> calculate_health_score f \<and> calculate_health_score f \<le> 100 \<and>
   (determine_risk_level s = Low \<longleftrightarrow> s \<ge> 80) \<and>
   (determine_risk_level s = Medium \<longleftrightarrow> 60 \<le> s \<and> s < 80) \<and>
   (determine_risk_level s = High \<longleftrightarrow> 30 \<le> s \<and> s < 60) \<and>
   (determine_risk_level s = Critical \<longleftrightarrow> s < 30)"
  using calculate_health_score_bounds [of f]
  by (auto simp: determine_risk_level_def)

section \<open>Failure-date projection\<close>

lemmas step_defs = rssi_mean_step_def rssi_std_step_def response_time_step_def
  response_trend_step_def uptime_step_def disconnect_step_def error_rate_step_def
  temp_step_def power_step_def

text \<open>The trend count of the source is the number of distinct keys that contain
  \<^verbatim>\<open>trend\<close> and are bound to a negative value.\<close>

lemma negative_trends_card:
  "negative_trends f =
     card {k \<in> fst ` set f. sublist ''trend'' k \<and> (\<exists>v. map_of f k = Some v \<and> v < 0)}"
proof -
  let ?P = "\<lambda>k. sublist ''trend'' k \<and> (case map_of f k of Some v \<Rightarrow> v < 0 | None \<Rightarrow> False)"
  have "negative_trends f = length (filter ?P (dict_keys f))"
    by (simp add: negative_trends_def trend_features_def)
  also have "\<dots> = card (set (filter ?P (dict_keys f)))"
    by (rule distinct_card [symmetric]) (simp add: dict_keys_def)
  also have "set (filter ?P (dict_keys f)) =
      {k \<in> fst ` set f. sublist ''trend'' k \<and> (\<exists>v. map_of f k = Some v \<and> v < 0)}"
    by (auto simp: dict_keys_def split: option.splits)
  finally show ?thesis .
qed

text \<open>
  Claim C4, as stated, fails: the source counts every key that contains \<^verbatim>\<open>trend\<close>, not
  only the keys that end in it. With the features \<^verbatim>\<open>{'trend_level': -1, 'uptime_ratio': 0.5}\<close>
  the score is 50, no feature with the suffix \<^verbatim>\<open>_trend\<close> is negative, and yet a failure
  date 12 days ahead is returned with confidence 0.6.
\<close>

theorem predict_failure_date_suffix_counterexample:
  "calculate_health_score [(''trend_level'', - 1), (''uptime_ratio'', 1 / 2)] = 50 \<and>
   spec_negative_trends [(''trend_level'', - 1), (''uptime_ratio'', 1 / 2)] = 0 \<and>
   predict_failure_date [(''trend_level'', - 1), (''uptime_ratio'', 1 / 2)] 0 = (Some 12, 0.6)"
  by (simp add: calculate_health_score_def step_defs Let_def spec_negative_trends_def dict_keys_def
      predict_failure_date_def negative_trends_def trend_features_def sublist_code suffix_to_prefix
      failure_threshold_def prediction_window_days_def)

text \<open>
  Claim C4, amended. Let \<open>s\<close> be the health score of the feature map and \<open>neg\<close> the number
  of features whose name contains \<^verbatim>\<open>trend\<close> and whose value is negative. If \<open>s > 70\<close>, or
  if \<open>s \<le> 70\<close> and \<open>neg = 0\<close>, no failure date is returned (and the confidence is 0).
  Otherwise the degradation rate \<open>r = (100 - s) / 30\<close> is at least 1, the failure date is
  \<open>now + max 1 ((s - 30) / r)\<close> days and the confidence is \<open>min 0.9 (0.5 + 0.1 * neg)\<close>.
\<close>

theorem predict_failure_date_cases:
  fixes f :: features and now :: datetime
  defines "s \<equiv> calculate_health_score f"
  defines "neg \<equiv> card {k \<in> fst ` set f. sublist ''trend'' k \<and> (\<exists>v. map_of f k = Some v \<and> v < 0)}"
  defines "r \<equiv> (100 - s) / 30"
  shows "(s > 70 \<longrightarrow> predict_failure_date f now = (None, 0)) \<and>
         (s \<le> 70 \<and> neg = 0 \<longrightarrow> predict_failure_date f now = (None, 0)) \<and>
         (s \<le> 70 \<and> neg > 0 \<longrightarrow> r \<ge> 1 \<and>
            predict_failure_date f now =
              (Some (now + max 1 ((s - 30) / r)), min 0.9 (0.5 + 0.1 * real neg)))"
proof -
  have n: "negative_trends f = neg" unfolding neg_def by (rule negative_trends_card)
  have "s \<le> 70 \<Longrightarrow> r \<ge> 1" unfolding r_def by simp
  then show ?thesis
    unfolding predict_failure_date_def n s_def [symmetric] Let_def r_def
      failure_threshold_def prediction_window_days_def
    by (simp add: mult.commute)
qed

theorem predict_failure_date_cases_witness:
  "calculate_health_score [] > 70 \<and> predict_failure_date [] 5 = (None, 0) \<and>
   calculate_health_score [(''uptime_ratio'', 1 / 2)] \<le> 70 \<and>
   negative_trends [(''uptime_ratio'', 1 / 2)] = 0 \<and>
   predict_failure_date [(''uptime_ratio'', 1 / 2)] 5 = (None, 0) \<and>
   calculate_health_score [(''rssi_trend'', - 1), (''uptime_ratio'', 1 / 2)] \<le> 70 \<and>
   negative_trends [(''rssi_trend'', - 1), (''uptime_ratio'', 1 / 2)] > 0 \<and>
   predict_failure_date [(''rssi_trend'', - 1), (''uptime_ratio'', 1 / 2)] 5 = (Some 17, 0.6)"
proof -
  have a: "calculate_health_score [] = 100"
    by (simp add: calculate_health_score_def step_defs Let_def)
  have b: "calculate_health_score [(''uptime_ratio'', 1 / 2)] = 50"
    by (simp add: calculate_health_score_def step_defs Let_def)
  have c: "calculate_health_score [(''rssi_trend'', - 1), (''uptime_ratio'', 1 / 2)] = 50"
    by (simp add: calculate_health_score_def step_defs Let_def)
  have nb: "negative_trends [(''uptime_ratio'', 1 / 2)] = 0"
    by (simp add: negative_trends_def trend_features_def dict_keys_def sublist_code)
  have nc: "negative_trends [(''rssi_trend'', - 1), (''uptime_ratio'', 1 / 2)] = 1"
    by (simp add: negative_trends_def trend_features_def dict_keys_def sublist_code)
  have "predict_failure_date [] 5 = (None, 0)"
    using predict_failure_date_cases [of "[]" 5] a by simp
  moreover have "predict_failure_date [(''uptime_ratio'', 1 / 2)] 5 = (None, 0)"
    using predict_failure_date_cases [of "[(''uptime_ratio'', 1 / 2)]" 5] b nb
    unfolding negative_trends_card [symmetric] by simp
  moreover have "predict_failure_date [(''rssi_trend'', - 1), (''uptime_ratio'', 1 / 2)] 5 = (Some 17, 0.6)"
    using predict_failure_date_cases [of "[(''rssi_trend'', - 1), (''uptime_ratio'', 1 / 2)]" 5] c nc
    unfolding negative_trends_card [symmetric] by simp
  ultimately show ?thesis using a b c nb nc by simp
qed

section \<open>Order of the scoring rules\<close>

lemma calculate_health_score_source_order:
  "calculate_health_score f = score_in_order f source_order"
  by (simp add: calculate_health_score_def score_in_order_def source_order_def
      rules_before_uptime_def rules_after_uptime_def Let_def)

lemma apply_rule_additive:
  "r \<noteq> Uptime \<Longrightarrow> apply_rule f r s = s + apply_rule f r 0"
  by (cases r) (simp_all add: step_defs split: option.splits)

lemma foldl_additive:
  "Uptime \<notin> set rs \<Longrightarrow>
   foldl (\<lambda>s r. apply_rule f r s) s rs = s + sum_list (map (\<lambda>r. apply_rule f r 0) rs)"
proof (induction rs arbitrary: s)
  case Nil
  then show ?case by simp
next
  case (Cons r rs)
  then have "r \<noteq> Uptime" "Uptime \<notin> set rs" by auto
  then show ?case
    using Cons.IH [of "apply_rule f r s"] apply_rule_additive [of r f s] by simp
qed

lemma foldl_permuted:
  assumes "mset rs = mset rs'" "Uptime \<notin> set rs'"
  shows "foldl (\<lambda>s r. apply_rule f r s) s rs = foldl (\<lambda>s r. apply_rule f r s) s rs'"
proof -
  have "set rs = set rs'" using assms(1) by (rule mset_eq_setD)
  then have "Uptime \<notin> set rs" using assms(2) by simp
  moreover have "sum_list (map (\<lambda>r. apply_rule f r 0) rs) = sum_list (map (\<lambda>r. apply_rule f r 0) rs')"
    using assms(1) by (metis mset_map sum_mset_sum_list)
  ultimately show ?thesis using assms(2) by (simp add: foldl_additive)
qed

text \<open>
  Claim C5, as stated, fails: the uptime multiplier does not commute with the deductions.
  With the features \<^verbatim>\<open>{'rssi_mean': -80, 'uptime_ratio': 0.5}\<close> the source computes
  \<open>(100 - 20) * 0.5 = 40\<close>, while the same rules with the multiplier applied first give
  \<open>100 * 0.5 - 20 = 30\<close>.
\<close>

theorem score_order_counterexample:
  "mset [Uptime, RssiMean, RssiStd, ResponseTime, ResponseTrend,
         Disconnects, ErrorRate, Overheating, PowerDrift] = mset source_order \<and>
   score_in_order [(''rssi_mean'', - 80), (''uptime_ratio'', 1 / 2)]
     [Uptime, RssiMean, RssiStd, ResponseTime, ResponseTrend,
      Disconnects, ErrorRate, Overheating, PowerDrift] = 30 \<and>
   calculate_health_score [(''rssi_mean'', - 80), (''uptime_ratio'', 1 / 2)] = 40"
  by (simp add: score_in_order_def calculate_health_score_def source_order_def
      rules_before_uptime_def rules_after_uptime_def step_defs Let_def)

text \<open>
  Claim C5, amended. The final clamped score does not depend on the order of the four
  deductions that the source applies before the uptime multiplier (signal strength, signal
  instability, response time, response-time trend), nor on the order of the four that it
  applies after it (disconnects, error rate, overheating, power trend): every such
  arrangement gives the score of \<open>calculate_health_score\<close>.
\<close>

theorem score_order_within_groups:
  assumes "mset pre = mset rules_before_uptime" "mset post = mset rules_after_uptime"
  shows "score_in_order f (pre @ [Uptime] @ post) = calculate_health_score f"
proof -
  have a: "Uptime \<notin> set rules_before_uptime" by (simp add: rules_before_uptime_def)
  have b: "Uptime \<notin> set rules_after_uptime" by (simp add: rules_after_uptime_def)
  show ?thesis
    unfolding calculate_health_score_source_order score_in_order_def source_order_def
    by (simp add: foldl_permuted [OF assms(1) a] foldl_permuted [OF assms(2) b])
qed

theorem score_order_within_groups_witness:
  "mset [RssiStd, RssiMean, ResponseTrend, ResponseTime] = mset rules_before_uptime \<and>
   mset [PowerDrift, Overheating, ErrorRate, Disconnects] = mset rules_after_uptime \<and>
   score_in_order [(''rssi_mean'', - 80), (''uptime_ratio'', 1 / 2), (''power_trend'', 1)]
     ([RssiStd, RssiMean, ResponseTrend, ResponseTime] @ [Uptime] @
      [PowerDrift, Overheating, ErrorRate, Disconnects]) = 30"
proof -
  have a: "mset [RssiStd, RssiMean, ResponseTrend, ResponseTime] = mset rules_before_uptime"
    by (simp add: rules_before_uptime_def)
  have b: "mset [PowerDrift, Overheating, ErrorRate, Disconnects] = mset rules_after_uptime"
    by (simp add: rules_after_uptime_def)
  have c: "calculate_health_score
      [(''rssi_mean'', - 80), (''uptime_ratio'', 1 / 2), (''power_trend'', 1)] = 30"
    by (simp add: calculate_health_score_def step_defs Let_def)
  show ?thesis
    using a b c score_order_within_groups [OF a b,
        of "[(''rssi_mean'', - 80), (''uptime_ratio'', 1 / 2), (''power_trend'', 1)]"]
    by simp
qed

section \<open>Means of non-negative lists\<close>

lemma np_mean_nonneg: "(\<And>x. x \<in> set xs \<Longrightarrow> 0 \<le> x) \<Longrightarrow> 0 \<le> np_mean xs"
  by (simp add: np_mean_def sum_list_nonneg)

section \<open>Distance from signal strength\<close>

lemma float_max_less_power: "float_max < 10 ^ 400"
  by (simp add: float_max_def)

text \<open>
  What the function does wherever it returns: 1 when the signal is at least the reference,
  the clamped power otherwise, and in every case a distance between 1 and 1000. In numpy's
  arithmetic it always returns; in Python's own it returns when the divisor is not zero and
  the power does not overflow.
\<close>

lemma rssi_to_distance_returns:
  "(rssi_v \<ge> ref \<longrightarrow> rssi_to_distance kind rssi_v ref n = Inr 1) \<and>
   (rssi_v < ref \<and> n \<noteq> 0 \<and> 10 powr ((ref - rssi_v) / (10 * n)) \<le> float_max \<longrightarrow>
      rssi_to_distance kind rssi_v ref n = Inr (max 1 (min (10 powr ((ref - rssi_v) / (10 * n))) 1000))) \<and>
   (\<forall>d. rssi_to_distance kind rssi_v ref n = Inr d \<longrightarrow> 1 \<le> d \<and> d \<le> 1000) \<and>
   (\<exists>d. rssi_to_distance NumpyFloat64 rssi_v ref n = Inr d)"
  by (cases kind) (auto simp: rssi_to_distance_def Let_def split: if_splits)

lemma rssi_to_distance_samples:
  "rssi_to_distance PythonFloat (- 20) (- 30) 2 = Inr 1 \<and>
   rssi_to_distance PythonFloat (- 50) (- 30) 2 = Inr 10 \<and>
   rssi_to_distance PythonFloat (- 110) (- 30) 2 = Inr 1000"
proof -
  have a: "(10::real) powr 1 = 10" by simp
  have "(10::real) powr 4 = 10 ^ 4" by (simp add: powr_numeral)
  then have b: "(10::real) powr 4 = 10000" by simp
  have c: "(10000::real) \<le> float_max" "(10::real) \<le> float_max" by (simp_all add: float_max_def)
  show ?thesis
    using a b c by (simp add: rssi_to_distance_def Let_def)
qed

text \<open>
  Claim C7 asks for a distance between 1 and 1000 for every signal and reference. The
  source evaluates \<^verbatim>\<open>10 ** e\<close> before it clamps, so on Python floats an exponent above
  about 308 raises \<^verbatim>\<open>OverflowError\<close> and no distance is returned: at the signal \<open>-10000\<close>
  with reference \<open>-30\<close> and the default exponent 2, where \<open>e = 498.5\<close>, and at the signal
  \<open>-70\<close> with reference \<open>-30\<close> and the exponent 0.01, where \<open>e = 400\<close>.
\<close>

theorem rssi_to_distance_overflow_raises:
  "rssi_to_distance PythonFloat (- 10000) (- 30) 2 = Inl OverflowError \<and>
   rssi_to_distance PythonFloat (- 70) (- 30) (1 / 100) = Inl OverflowError"
proof -
  have p: "(10::real) powr 400 = 10 ^ 400" by (simp add: powr_numeral)
  have a: "float_max < 10 powr (400::real)"
    unfolding p by (rule float_max_less_power)
  have "(10::real) powr 400 \<le> 10 powr (997 / 2)" by (rule powr_mono) simp_all
  with a have b: "float_max < 10 powr (997 / 2 :: real)" by simp
  have e1: "(- 30 - - 10000) / (10 * 2) = (997 / 2 :: real)" by simp
  have e2: "(- 30 - - 70) / (10 * (1 / 100)) = (400 :: real)" by simp
  have "rssi_to_distance PythonFloat (- 10000) (- 30) 2 = Inl OverflowError"
    unfolding rssi_to_distance_def Let_def e1 using b by simp
  moreover have "rssi_to_distance PythonFloat (- 70) (- 30) (1 / 100) = Inl OverflowError"
    unfolding rssi_to_distance_def Let_def e2 using a by simp
  ultimately show ?thesis by simp
qed

section \<open>Confidence of a position estimate\<close>

text \<open>
  Claim C8. For a non-empty list of anchor positions, each with its distance, and an
  estimated position \<open>q\<close>, the confidence is 1 minus a hundredth of the mean residual
  \<open>\<bar>euclidean q p - d\<bar>\<close>, clamped to the interval from 0 to 1. Every confidence that the
  function returns lies between 0 and 1.
\<close>

theorem position_confidence_formula:
  "(positions \<noteq> [] \<and> length positions \<le> length distances \<longrightarrow>
      calculate_position_confidence positions distances (Some q) =
        Inr (max 0 (min 1 (1 - np_mean (map (\<lambda>(p, d). \<bar>euclidean q p - d\<bar>) (zip positions distances)) / 100)))) \<and>
   (\<forall>c. calculate_position_confidence positions distances est = Inr c \<longrightarrow> 0 \<le> c \<and> c \<le> 1)"
proof -
  have m: "0 \<le> np_mean (map (\<lambda>(p, d). \<bar>euclidean q' p - d\<bar>) (zip positions distances))" for q'
    by (rule np_mean_nonneg) auto
  have "calculate_position_confidence positions distances est = Inr c \<Longrightarrow> 0 \<le> c \<and> c \<le> 1" for c
    using m by (cases est) (auto simp: calculate_position_confidence_def Let_def split: if_splits)
  moreover have "positions \<noteq> [] \<Longrightarrow> length positions \<le> length distances \<Longrightarrow>
      calculate_position_confidence positions distances (Some q) =
        Inr (max 0 (min 1 (1 - np_mean (map (\<lambda>(p, d). \<bar>euclidean q p - d\<bar>) (zip positions distances)) / 100)))"
    using m [of q] by (simp add: calculate_position_confidence_def Let_def)
  ultimately show ?thesis by blast
qed

lemma euclidean_3_4: "euclidean (0, 0) (3, 4) = 5"
  unfolding euclidean_def by (rule real_sqrt_unique) simp_all

theorem position_confidence_formula_witness:
  "[(3, 4)] \<noteq> ([] :: (real \<times> real) list) \<and> length [(3::real, 4::real)] \<le> length [7::real] \<and>
   calculate_position_confidence [(3, 4)] [7] (Some (0, 0)) = Inr (49 / 50)"
  using position_confidence_formula [of "[(3, 4)]" "[7]" "(0, 0)"]
  by (simp add: euclidean_3_4 np_mean_def)

section \<open>Smoothers\<close>

text \<open>
  Claim C6. A freshly constructed Kalman filter, on its first measurement \<open>z\<close>, returns \<open>z\<close>
  and holds the estimate \<open>z\<close> with error 1. A filter that holds an estimate \<open>x\<close> computes
  \<open>P' = P + Q\<close>, \<open>K = P' / (P' + R)\<close>, the new estimate \<open>x + K * (z - x)\<close> and the new error
  \<open>(1 - K) * P'\<close>, provided the denominator \<open>P' + R\<close> is not zero. The moving average
  takes \<open>z\<close> on its first measurement and \<open>\<alpha> * z + (1 - \<alpha>) * y\<close> afterwards. Both updates
  are functions of the state and the input alone.
\<close>

theorem smoothers_follow_recurrences:
  "kalman_update (KalmanFilter_init pv mv) z =
     Inr (z, \<lparr>process_variance = pv, measurement_variance = mv, estimate = Some z, error_estimate = 1\<rparr>) \<and>
   (\<forall>x. estimate kf = Some x \<and> error_estimate kf + process_variance kf + measurement_variance kf \<noteq> 0 \<longrightarrow>
      (let P' = error_estimate kf + process_variance kf;
           K = P' / (P' + measurement_variance kf);
           x' = x + K * (z - x)
       in kalman_update kf z = Inr (x', kf\<lparr>estimate := Some x', error_estimate := (1 - K) * P'\<rparr>))) \<and>
   ewma_update (EWMA_init a) z = (z, \<lparr>alpha = a, ewma_value = Some z\<rparr>) \<and>
   (\<forall>y. ewma_value ew = Some y \<longrightarrow>
      ewma_update ew z =
        (alpha ew * z + (1 - alpha ew) * y, ew\<lparr>ewma_value := Some (alpha ew * z + (1 - alpha ew) * y)\<rparr>))"
  by (simp add: kalman_update_def KalmanFilter_init_def ewma_update_def EWMA_init_def Let_def)

theorem smoothers_follow_recurrences_witness:
  "kalman_update \<lparr>process_variance = 1 / 1000, measurement_variance = 1 / 10, estimate = Some 1, error_estimate = 1\<rparr> 2 =
     Inr (2102 / 1101, \<lparr>process_variance = 1 / 1000, measurement_variance = 1 / 10,
                         estimate = Some (2102 / 1101), error_estimate = 1001 / 11010\<rparr>) \<and>
   ewma_update \<lparr>alpha = 3 / 10, ewma_value = Some 1\<rparr> 2 = (13 / 10, \<lparr>alpha = 3 / 10, ewma_value = Some (13 / 10)\<rparr>)"
  using smoothers_follow_recurrences [where kf = "\<lparr>process_variance = 1 / 1000, measurement_variance = 1 / 10, estimate = Some 1, error_estimate = 1\<rparr>" and z = 2 and ew = "\<lparr>alpha = 3 / 10, ewma_value = Some 1\<rparr>"]
  by (simp add: Let_def)

text \<open>
  With a non-negative process variance and a positive measurement variance, as the
  defaults are, the error stays positive, so the update of a filter never divides by zero.
\<close>

lemma kalman_update_stays_positive:
  assumes "0 \<le> process_variance kf" "0 < measurement_variance kf" "0 < error_estimate kf"
  shows "\<exists>e kf'. kalman_update kf z = Inr (e, kf') \<and> 0 < error_estimate kf' \<and>
           process_variance kf' = process_variance kf \<and> measurement_variance kf' = measurement_variance kf"
proof (cases "estimate kf")
  case None
  then show ?thesis using assms by (simp add: kalman_update_def)
next
  case (Some x)
  define P' where "P' = error_estimate kf + process_variance kf"
  have p: "0 < P'" "0 < P' + measurement_variance kf" using assms by (simp_all add: P'_def)
  have "1 - P' / (P' + measurement_variance kf) = measurement_variance kf / (P' + measurement_variance kf)"
    using p by (simp add: field_simps)
  then have "0 < (1 - P' / (P' + measurement_variance kf)) * P'"
    using p assms(2) by simp
  then show ?thesis
    using Some p by (simp add: kalman_update_def Let_def P'_def [symmetric])
qed

section \<open>Triangulation\<close>

lemma rssi_to_distance_default:
  "\<exists>d. rssi_to_distance NumpyFloat64 a b 2 = Inr d"
  by (simp add: rssi_to_distance_def Let_def)

lemma collect_distances:
  "\<exists>ds. collect (map (\<lambda>r. rssi_to_distance NumpyFloat64 a (rssi_range r) 2) refs) = Inr ds \<and> length ds = length refs"
proof (induction refs)
  case Nil
  then show ?case by simp
next
  case (Cons r refs)
  then obtain ds where "collect (map (\<lambda>r. rssi_to_distance NumpyFloat64 a (rssi_range r) 2) refs) = Inr ds"
    "length ds = length refs" by blast
  moreover obtain d where "rssi_to_distance NumpyFloat64 a (rssi_range r) 2 = Inr d"
    using rssi_to_distance_default by blast
  ultimately show ?case by simp
qed

lemma confidence_no_error:
  "length positions \<le> length distances \<Longrightarrow>
   \<exists>c. calculate_position_confidence positions distances est = Inr c"
  by (cases est) (simp_all add: calculate_position_confidence_def Let_def)

lemma triangulate_position_never_raises:
  "\<exists>r. triangulate_position st minimize now dev = Inr r"
proof (cases "signal_history st dev")
  case None
  then show ?thesis by (simp add: triangulate_position_def)
next
  case (Some h)
  define a where "a = np_mean (map rssi (drop (length h - 5) h))"
  obtain ds where ds: "collect (map (\<lambda>r. rssi_to_distance NumpyFloat64 a (rssi_range r) 2) (reference_points st)) = Inr ds"
      "length ds = length (reference_points st)" 
    using collect_distances by blast
  have conf: "\<exists>c. calculate_position_confidence (map ref_position (reference_points st)) ds (Some e) = Inr c" for e
    by (rule confidence_no_error) (simp add: ds(2))
  show ?thesis
  proof (cases "solve_triangulation minimize (map ref_position (reference_points st)) ds")
    case None
    then show ?thesis
      using Some ds(1) by (simp add: triangulate_position_def Let_def a_def [symmetric])
  next
    case (Some e)
    obtain c where "calculate_position_confidence (map ref_position (reference_points st)) ds (Some e) = Inr c"
      using conf by blast
    then show ?thesis
      using Some \<open>signal_history st dev = Some h\<close> ds(1)
      by (simp add: triangulate_position_def Let_def a_def [symmetric])
  qed
qed

text \<open>
  Claim C3. \<open>triangulate_position\<close> returns no position when fewer than 3 reference
  points are registered, when the device has no history, and when the device has fewer
  than 3 recent measurements (the last 5 of its history). When it returns a position there
  are at least 3 reference points and at least 3 recent measurements. It never raises.
\<close>

theorem triangulate_position_needs_three:
  "(length (reference_points st) < 3 \<longrightarrow> triangulate_position st minimize now dev = Inr None) \<and>
   (signal_history st dev = None \<longrightarrow> triangulate_position st minimize now dev = Inr None) \<and>
   (\<forall>history. signal_history st dev = Some history \<and> length (drop (length history - 5) history) < 3 \<longrightarrow>
      triangulate_position st minimize now dev = Inr None) \<and>
   (\<forall>p. triangulate_position st minimize now dev = Inr (Some p) \<longrightarrow>
      3 \<le> length (reference_points st) \<and>
      (\<exists>history. signal_history st dev = Some history \<and>
         3 \<le> length (drop (length history - 5) history))) \<and>
   (\<exists>r. triangulate_position st minimize now dev = Inr r)"
  using triangulate_position_never_raises [of st minimize now dev]
  by (auto simp: triangulate_position_def triangulation_min_points_def Let_def
      split: option.splits if_splits sum.splits)

lemma euclidean_examples:
  "euclidean (50, 0) (0, 0) = 50" "euclidean (50, 0) (100, 0) = 50" "euclidean (50, 0) (50, 100) = 100"
  unfolding euclidean_def by (rule real_sqrt_unique; simp)+

lemma example_refs:
  "reference_points (with_history example_processor dev rs) =
     [\<lparr>ref_device_id = ''router_1'', ref_position = (0, 0), rssi_range = - 30, calibrated = True\<rparr>,
      \<lparr>ref_device_id = ''router_2'', ref_position = (100, 0), rssi_range = - 30, calibrated = True\<rparr>,
      \<lparr>ref_device_id = ''router_3'', ref_position = (50, 100), rssi_range = - 30, calibrated = True\<rparr>]"
  by (simp add: with_history_def example_processor_def add_reference_point_def
      AdvancedSignalProcessor_init_def)

lemma example_history:
  "signal_history (with_history st dev rs) dev = Some (map (example_measurement dev) rs)"
  by (simp add: with_history_def)

lemma example_rssi: "rssi (example_measurement dev r) = r"
  by (simp add: example_measurement_def)

theorem triangulate_position_needs_three_witness:
  "triangulate_position (with_history example_processor ''test_device'' [- 30, - 30, - 30])
       (\<lambda>f x0. Some (50, 0)) 7 ''test_device'' =
     Inr (Some \<lparr>pos_device_id = ''test_device'', pos_x = 50, pos_y = 0, confidence = 103 / 300,
                pos_timestamp = 7, pos_method = ''triangulation''\<rparr>) \<and>
   triangulate_position (with_history example_processor ''test_device'' [- 30, - 30])
       (\<lambda>f x0. Some (50, 0)) 7 ''test_device'' = Inr None \<and>
   triangulate_position (with_history AdvancedSignalProcessor_init ''test_device'' [- 30, - 30, - 30])
       (\<lambda>f x0. Some (50, 0)) 7 ''test_device'' = Inr None \<and>
   triangulate_position example_processor (\<lambda>f x0. Some (50, 0)) 7 ''test_device'' = Inr None"
proof -
  let ?m = "\<lambda>(f :: real \<times> real \<Rightarrow> real) (x0 :: real \<times> real). Some (50 :: real, 0 :: real)"
  have a: "triangulate_position (with_history example_processor ''test_device'' [- 30, - 30, - 30])
       ?m 7 ''test_device'' =
     Inr (Some \<lparr>pos_device_id = ''test_device'', pos_x = 50, pos_y = 0, confidence = 103 / 300,
                pos_timestamp = 7, pos_method = ''triangulation''\<rparr>)"
    by (simp add: triangulate_position_def example_refs example_history example_rssi
        triangulation_min_points_def np_mean_def rssi_to_distance_def solve_triangulation_def
        calculate_position_confidence_def euclidean_examples Let_def)
  have b: "length (drop (length (map (example_measurement ''test_device'') [- 30, - 30 :: real]) - 5)
      (map (example_measurement ''test_device'') [- 30, - 30])) < 3" by simp
  have c: "length (reference_points (with_history AdvancedSignalProcessor_init ''test_device'' [- 30, - 30, - 30])) < 3"
    by (simp add: with_history_def AdvancedSignalProcessor_init_def)
  have d: "signal_history example_processor ''test_device'' = None"
    by (simp add: example_processor_def add_reference_point_def AdvancedSignalProcessor_init_def)
  show ?thesis
    using a b c d
      triangulate_position_needs_three [of "with_history example_processor ''test_device'' [- 30, - 30, - 30]" ?m 7 "''test_device''"]
      triangulate_position_needs_three [of "with_history example_processor ''test_device'' [- 30, - 30]" ?m 7 "''test_device''"]
      triangulate_position_needs_three [of "with_history AdvancedSignalProcessor_init ''test_device'' [- 30, - 30, - 30]" ?m 7 "''test_device''"]
      triangulate_position_needs_three [of example_processor ?m 7 "''test_device''"]
    by (simp add: example_history)
qed

section \<open>Statistical anomaly score\<close>

lemma np_std_nonneg: "0 \<le> np_std xs"
proof -
  have "0 \<le> sum_list (map (\<lambda>x. \<bar>x - np_mean xs\<bar>\<^sup>2) xs)"
    by (rule sum_list_nonneg) auto
  then show ?thesis by (simp add: np_std_def np_mean_def [of "map f ys" for f ys])
qed

lemma detect_signal_anomaly_short:
  "signal_history st dev = Some history \<Longrightarrow> length history < 15 \<Longrightarrow>
   detect_signal_anomaly st dev m = 0"
proof (cases "length history < 10")
  case True
  assume "signal_history st dev = Some history"
  then show ?thesis
    using True by (simp add: detect_signal_anomaly_def)
next
  case False
  assume h: "signal_history st dev = Some history" and "length history < 15"
  then have l: "length (map rssi (take (length history - 10) history)) < 5" by simp
  show ?thesis
    unfolding detect_signal_anomaly_def h option.case if_not_P [OF False] Let_def if_P [OF l] ..
qed

lemma detect_signal_anomaly_missing:
  "signal_history st dev = None \<Longrightarrow> detect_signal_anomaly st dev m = 0"
  by (simp add: detect_signal_anomaly_def)

lemma detect_signal_anomaly_long:
  assumes "signal_history st dev = Some history" "15 \<le> length history"
  shows "\<exists>a. 0 \<le> a \<and> detect_signal_anomaly st dev m = min 1 (a / 5)"
proof -
  define recent where "recent = map rssi (drop (length history - 10) history)"
  define hist where "hist = map rssi (take (length history - 10) history)"
  define z where "z = \<bar>rssi m - np_mean hist\<bar> / np_std hist"
  define b where "b = (if length recent \<ge> 2 \<and> recent ! (length recent - 2) - rssi m > 20 then z + 2 else z)"
  define c where "c = (if length recent \<ge> 5 \<and> np_std recent > 15 then b + 1 else b)"
  have d: "detect_signal_anomaly st dev m = (if np_std hist = 0 then 0 else min 1 (c / 5))"
  proof -
    have l: "\<not> length history < 10" "\<not> length hist < 5"
      using assms(2) by (simp_all add: hist_def)
    show ?thesis
      unfolding detect_signal_anomaly_def assms(1) option.case Let_def
        recent_def [symmetric] hist_def [symmetric]
      unfolding if_not_P [OF l(1)] if_not_P [OF l(2)] c_def b_def z_def ..
  qed
  have "0 \<le> z" unfolding z_def using np_std_nonneg [of hist] by simp
  then have "0 \<le> b" unfolding b_def by simp
  then have "0 \<le> c" unfolding c_def by simp
  show ?thesis
  proof (cases "np_std hist = 0")
    case True
    then have "detect_signal_anomaly st dev m = min 1 (0 / 5)" using d by simp
    then show ?thesis by blast
  next
    case False
    then have "detect_signal_anomaly st dev m = min 1 (c / 5)" using d by simp
    with \<open>0 \<le> c\<close> show ?thesis by blast
  qed
qed

lemma detect_signal_anomaly_range:
  "0 \<le> detect_signal_anomaly st dev m \<and> detect_signal_anomaly st dev m \<le> 1"
proof (cases "signal_history st dev")
  case None
  then show ?thesis by (simp add: detect_signal_anomaly_missing)
next
  case (Some history)
  show ?thesis
  proof (cases "length history < 15")
    case True
    with Some show ?thesis by (simp add: detect_signal_anomaly_short)
  next
    case False
    then obtain a where "0 \<le> a" "detect_signal_anomaly st dev m = min 1 (a / 5)"
      using detect_signal_anomaly_long [OF Some, of m] by auto
    then show ?thesis by simp
  qed
qed

text \<open>
  Claim C2. For every device and every measurement the anomaly score lies between 0 and 1.
  For a device without history, or whose history holds fewer than 10 measurements, the
  score is exactly 0, so it does not exceed the event threshold 0.5.
\<close>

theorem detect_signal_anomaly_bounded_and_silent_below_ten:
  "0 \<le> detect_signal_anomaly st dev m \<and> detect_signal_anomaly st dev m \<le> 1 \<and>
   (signal_history st dev = None \<longrightarrow> detect_signal_anomaly st dev m = 0) \<and>
   (\<forall>history. signal_history st dev = Some history \<and> length history < 10 \<longrightarrow>
      detect_signal_anomaly st dev m = 0 \<and> \<not> detect_signal_anomaly st dev m > 0.5)"
  using detect_signal_anomaly_range [of st dev m]
  by (simp add: detect_signal_anomaly_missing detect_signal_anomaly_short)

text \<open>
  Claim C10. For a device whose history holds at least 10 but fewer than 15 measurements
  the score is exactly 0. A nonzero score needs a history of at least 15 measurements:
  the baseline, all but the last 10 entries, must have at least 5 entries.
\<close>

theorem detect_signal_anomaly_needs_fifteen:
  "(\<forall>history. signal_history st dev = Some history \<and> 10 \<le> length history \<and> length history < 15 \<longrightarrow>
      detect_signal_anomaly st dev m = 0) \<and>
   (detect_signal_anomaly st dev m \<noteq> 0 \<longrightarrow>
      (\<exists>history. signal_history st dev = Some history \<and> length history \<ge> 15 \<and>
         length (take (length history - 10) history) \<ge> 5))"
proof -
  have "\<exists>history. signal_history st dev = Some history \<and> length history \<ge> 15"
    if "detect_signal_anomaly st dev m \<noteq> 0"
  proof (cases "signal_history st dev")
    case None
    with that show ?thesis by (simp add: detect_signal_anomaly_missing)
  next
    case (Some history)
    with that have "\<not> length history < 15" using detect_signal_anomaly_short by blast
    with Some show ?thesis by simp
  qed
  then show ?thesis by (auto simp: detect_signal_anomaly_short)
qed

subsection \<open>The score on sample histories\<close>

lemma np_std_baseline: "np_std [0, 0, 0, 0, 5] = 2"
  unfolding np_std_def by (rule real_sqrt_unique) (simp_all add: np_mean_def)

lemma np_std_recent: "np_std [100, 100, 100, 100, 100, 100, 100, 100, 100, 100] = 0"
  by (simp add: np_std_def np_mean_def)

lemma np_mean_baseline: "np_mean [0, 0, 0, 0, 5] = 1"
  by (simp add: np_mean_def)

lemma example_detect_full:
  "detect_signal_anomaly
     (with_history st dev [0, 0, 0, 0, 5, 100, 100, 100, 100, 100, 100, 100, 100, 100, 100]) dev
     (example_measurement dev 100) = 1"
  by (simp add: detect_signal_anomaly_def example_history example_rssi Let_def
      np_std_baseline np_std_recent np_mean_baseline)

theorem detect_signal_anomaly_bounded_and_silent_below_ten_witness:
  "detect_signal_anomaly (with_history example_processor ''test_device'' [- 40, - 41, - 42])
      ''test_device'' (example_measurement ''test_device'' (- 90)) = 0 \<and>
   detect_signal_anomaly example_processor ''test_device''
      (example_measurement ''test_device'' (- 90)) = 0"
proof -
  have a: "signal_history (with_history example_processor ''test_device'' [- 40, - 41, - 42]) ''test_device''
      = Some (map (example_measurement ''test_device'') [- 40, - 41, - 42])"
    by (rule example_history)
  have b: "length (map (example_measurement ''test_device'') [- 40, - 41, - 42 :: real]) < 10" by simp
  have c: "signal_history example_processor ''test_device'' = None"
    by (simp add: example_processor_def add_reference_point_def AdvancedSignalProcessor_init_def)
  show ?thesis
    using a b c
      detect_signal_anomaly_bounded_and_silent_below_ten
        [of "with_history example_processor ''test_device'' [- 40, - 41, - 42]" "''test_device''"
            "example_measurement ''test_device'' (- 90)"]
      detect_signal_anomaly_bounded_and_silent_below_ten
        [of example_processor "''test_device''" "example_measurement ''test_device'' (- 90)"]
    by blast
qed

theorem detect_signal_anomaly_needs_fifteen_witness:
  "detect_signal_anomaly
      (with_history example_processor ''test_device''
         [0, 0, 0, 0, 5, 100, 100, 100, 100, 100, 100, 100])
      ''test_device'' (example_measurement ''test_device'' 100) = 0 \<and>
   detect_signal_anomaly
      (with_history example_processor ''test_device''
         [0, 0, 0, 0, 5, 100, 100, 100, 100, 100, 100, 100, 100, 100, 100])
      ''test_device'' (example_measurement ''test_device'' 100) = 1 \<and>
   (\<exists>history. signal_history
      (with_history example_processor ''test_device''
         [0, 0, 0, 0, 5, 100, 100, 100, 100, 100, 100, 100, 100, 100, 100]) ''test_device''
        = Some history \<and> length history \<ge> 15)"
proof -
  let ?short = "with_history example_processor ''test_device''
         [0, 0, 0, 0, 5, 100, 100, 100, 100, 100, 100, 100]"
  let ?long = "with_history example_processor ''test_device''
         [0, 0, 0, 0, 5, 100, 100, 100, 100, 100, 100, 100, 100, 100, 100]"
  let ?m = "example_measurement ''test_device'' 100"
  have a: "signal_history ?short ''test_device'' =
      Some (map (example_measurement ''test_device'') [0, 0, 0, 0, 5, 100, 100, 100, 100, 100, 100, 100])"
    by (rule example_history)
  have b: "10 \<le> length (map (example_measurement ''test_device'')
      [0, 0, 0, 0, 5, 100, 100, 100, 100, 100, 100, 100 :: real])"
     "length (map (example_measurement ''test_device'')
      [0, 0, 0, 0, 5, 100, 100, 100, 100, 100, 100, 100 :: real]) < 15" by simp_all
  have c: "detect_signal_anomaly ?long ''test_device'' ?m = 1" by (rule example_detect_full)
  then have d: "detect_signal_anomaly ?long ''test_device'' ?m \<noteq> 0" by simp
  have "detect_signal_anomaly ?short ''test_device'' ?m = 0"
    using a b detect_signal_anomaly_needs_fifteen [of ?short "''test_device''" ?m] by blast
  moreover have "\<exists>history. signal_history ?long ''test_device'' = Some history \<and> length history \<ge> 15"
    using d detect_signal_anomaly_needs_fifteen [of ?long "''test_device''" ?m] by blast
  ultimately show ?thesis using c by blast
qed

section \<open>Anomaly regions\<close>

lemma map_of_filter_other:
  "k' \<noteq> k \<Longrightarrow> map_of (filter (\<lambda>kv. fst kv \<noteq> k) kvs) k' = map_of kvs k'"
  by (induction kvs) auto

lemma set_dict_items: "set (dict_items d) = {(k, v). map_of d k = Some v}"
proof (induction d rule: dict_items.induct)
  case 1
  then show ?case by simp
next
  case (2 k v kvs)
  show ?case
  proof (rule set_eqI)
    fix x :: "'a \<times> 'b"
    obtain k' v' where x: "x = (k', v')" by (cases x)
    show "x \<in> set (dict_items ((k, v) # kvs)) \<longleftrightarrow> x \<in> {(a, b). map_of ((k, v) # kvs) a = Some b}"
    proof (cases "k' = k")
      case True
      then show ?thesis using 2 x by (auto simp: map_of_eq_None_iff dest!: map_of_SomeD)
    next
      case False
      then show ?thesis using 2 x by (simp add: map_of_filter_other)
    qed
  qed
qed

lemma filter_zip_maps:
  "map snd (filter (\<lambda>(a, b). P a) (zip (map g xs) (map h xs))) = map h (filter (\<lambda>x. P (g x)) xs)"
  by (induction xs) auto

lemma py_max_ge: "x \<in> set xs \<Longrightarrow> x \<le> py_max xs"
proof (cases xs)
  case Nil
  assume "x \<in> set xs"
  with Nil show ?thesis by simp
next
  case (Cons y ys)
  assume x: "x \<in> set xs"
  have "py_max xs = Max (set xs)"
    unfolding Cons py_max_def by (simp only: list.case Max.set_eq_fold)
  with x show ?thesis by simp
qed

lemma euclidean_sym: "euclidean p q = euclidean q p"
  by (simp add: euclidean_def power2_commute)


lemma build_region_fields:
  fixes f :: "string \<Rightarrow> real" and items :: "(string \<times> DevicePosition) list"
    and cp :: "(real \<times> real) list" and now :: datetime
  defines "r \<equiv> build_region items (map (\<lambda>(d, pos). f d) items) cp now"
  shows "severity r = (if region_confidence r > 0.7 then ''high'' else ''medium'')"
    and "affected_devices r =
           map fst (filter (\<lambda>(d, pos). euclidean (pos_x pos, pos_y pos) (center r) \<le> radius r) items)"
    and "region_confidence r =
           np_mean (map (\<lambda>(d, pos). f d)
             (filter (\<lambda>(d, pos). euclidean (pos_x pos, pos_y pos) (center r) \<le> radius r) items))"
    and "center r = (np_mean (map fst cp), np_mean (map snd cp))"
    and "radius r = py_max (map (euclidean (center r)) cp)"
proof -
  let ?g = "\<lambda>(d :: string, pos :: DevicePosition). (pos_x pos, pos_y pos)"
  let ?h = "\<lambda>(d :: string, pos :: DevicePosition). f d"
  have z: "map snd (filter (\<lambda>(pos, sc). euclidean pos c \<le> m) (zip (map ?g items) (map ?h items)))
      = map ?h (filter (\<lambda>(d, pos). euclidean (pos_x pos, pos_y pos) c \<le> m) items)" for c m
    by (induction items) auto
  show "severity r = (if region_confidence r > 0.7 then ''high'' else ''medium'')"
    by (simp add: r_def build_region_def Let_def)
  show "affected_devices r =
           map fst (filter (\<lambda>(d, pos). euclidean (pos_x pos, pos_y pos) (center r) \<le> radius r) items)"
    by (simp add: r_def build_region_def Let_def)
  show "region_confidence r =
           np_mean (map (\<lambda>(d, pos). f d)
             (filter (\<lambda>(d, pos). euclidean (pos_x pos, pos_y pos) (center r) \<le> radius r) items))"
    by (simp add: r_def build_region_def Let_def z)
  show "center r = (np_mean (map fst cp), np_mean (map snd cp))"
    by (simp add: r_def build_region_def Let_def)
  show "radius r = py_max (map (euclidean (center r)) cp)"
    by (simp add: r_def build_region_def Let_def)
qed

lemma cluster_regions_elem:
  "r \<in> set (cluster_regions items scores high labels now) \<Longrightarrow>
   \<exists>cp. r = build_region items scores cp now \<and> 2 \<le> length cp \<and> set cp \<subseteq> set high"
proof -
  assume "r \<in> set (cluster_regions items scores high labels now)"
  then obtain c where r: "r = build_region items scores
        (map (\<lambda>i. high ! i) (filter (\<lambda>i. labels i = c) [0..<length high])) now"
      "2 \<le> length (map (\<lambda>i. high ! i) (filter (\<lambda>i. labels i = c) [0..<length high]))"
    by (auto simp: cluster_regions_def Let_def split: if_splits)
  have "set (map (\<lambda>i. high ! i) (filter (\<lambda>i. labels i = c) [0..<length high])) \<subseteq> set high"
    by auto
  with r show ?thesis by blast
qed

lemma detect_anomaly_regions_elem:
  assumes "r \<in> set (fst (detect_anomaly_regions st dbscan now))"
  shows "\<exists>cp. r = build_region (dict_items (device_positions st))
                    (map (\<lambda>(d, pos). recent_anomaly st d) (dict_items (device_positions st))) cp now \<and>
              2 \<le> length cp \<and>
              set cp \<subseteq> (\<lambda>(d, pos). (pos_x pos, pos_y pos)) ` set (dict_items (device_positions st))"
proof -
  let ?items = "dict_items (device_positions st)"
  let ?positions = "map (\<lambda>(d, pos). (pos_x pos, pos_y pos)) ?items"
  let ?scores = "map (\<lambda>(d, pos). recent_anomaly st d) ?items"
  define high where "high = map fst (filter (\<lambda>(pos, sc). sc > 0.5) (zip ?positions ?scores))"
  have "r \<in> set (fst (if ?items = [] then ([], st)
      else if length ?positions < 3 then ([], st)
      else if length high < 2 then ([], st)
      else (cluster_regions ?items ?scores high (dbscan high) now,
            st\<lparr>anomaly_regions := cluster_regions ?items ?scores high (dbscan high) now\<rparr>)))"
    using assms unfolding detect_anomaly_regions_def Let_def high_def .
  then have "r \<in> set (cluster_regions ?items ?scores high (dbscan high) now)"
    by (simp split: if_splits)
  then obtain cp where cp: "r = build_region ?items ?scores cp now" "2 \<le> length cp"
      "set cp \<subseteq> set high"
    using cluster_regions_elem by blast
  have "set high \<subseteq> set ?positions"
    unfolding high_def by (auto dest: set_zip_leftD)
  with cp show ?thesis by auto
qed

text \<open>
  Claim C9. Every region that \<open>detect_anomaly_regions\<close> produces has severity \<^verbatim>\<open>high\<close>
  exactly when its confidence exceeds 0.7 and \<^verbatim>\<open>medium\<close> otherwise. Its confidence is the
  mean anomaly score of the positioned devices within its radius of its centre, of which
  there is at least one, and its member list names exactly those devices.
\<close>

theorem anomaly_region_contents:
  "\<forall>r \<in> set (fst (detect_anomaly_regions st dbscan now)).
     (severity r = ''high'' \<longleftrightarrow> region_confidence r > 0.7) \<and>
     (severity r = ''medium'' \<longleftrightarrow> \<not> region_confidence r > 0.7) \<and>
     devices_within st (center r) (radius r) \<noteq> [] \<and>
     region_confidence r =
       np_mean (map (\<lambda>(d, pos). recent_anomaly st d) (devices_within st (center r) (radius r))) \<and>
     affected_devices r = map fst (devices_within st (center r) (radius r)) \<and>
     set (affected_devices r) =
       {d. \<exists>pos. map_of (device_positions st) d = Some pos \<and>
                  euclidean (pos_x pos, pos_y pos) (center r) \<le> radius r}"
proof
  fix r
  assume "r \<in> set (fst (detect_anomaly_regions st dbscan now))"
  then obtain cp where cp: "r = build_region (dict_items (device_positions st))
        (map (\<lambda>(d, pos). recent_anomaly st d) (dict_items (device_positions st))) cp now"
      "2 \<le> length cp"
      "set cp \<subseteq> (\<lambda>(d, pos). (pos_x pos, pos_y pos)) ` set (dict_items (device_positions st))"
    using detect_anomaly_regions_elem by blast
  note f = build_region_fields [where items = "dict_items (device_positions st)"
      and f = "recent_anomaly st" and cp = cp and now = now,
      folded cp(1)]
  have sev: "(severity r = ''high'' \<longleftrightarrow> region_confidence r > 0.7) \<and>
     (severity r = ''medium'' \<longleftrightarrow> \<not> region_confidence r > 0.7)"
    using f(1) by simp
  have conf: "region_confidence r =
       np_mean (map (\<lambda>(d, pos). recent_anomaly st d) (devices_within st (center r) (radius r)))"
    using f(3) by (simp add: devices_within_def)
  have aff: "affected_devices r = map fst (devices_within st (center r) (radius r))"
    using f(2) by (simp add: devices_within_def)
  have "set (map fst (devices_within st (center r) (radius r))) =
       {d. \<exists>pos. map_of (device_positions st) d = Some pos \<and>
                  euclidean (pos_x pos, pos_y pos) (center r) \<le> radius r}"
    by (auto simp: devices_within_def set_dict_items image_iff)
  then have members: "set (affected_devices r) =
       {d. \<exists>pos. map_of (device_positions st) d = Some pos \<and>
                  euclidean (pos_x pos, pos_y pos) (center r) \<le> radius r}"
    using aff by simp
  have nonempty: "devices_within st (center r) (radius r) \<noteq> []"
  proof -
    from cp(2) obtain p where p: "p \<in> set cp" by (cases cp) auto
    then obtain d pos where dp: "(d, pos) \<in> set (dict_items (device_positions st))"
        "p = (pos_x pos, pos_y pos)"
      using cp(3) by auto
    have "euclidean (center r) p \<le> radius r"
      unfolding f(5) using p by (intro py_max_ge) simp
    then have "euclidean (pos_x pos, pos_y pos) (center r) \<le> radius r"
      using dp(2) by (simp add: euclidean_sym)
    then have "(d, pos) \<in> set (devices_within st (center r) (radius r))"
      using dp(1) by (simp add: devices_within_def)
    then show ?thesis by auto
  qed
  show "(severity r = ''high'' \<longleftrightarrow> region_confidence r > 0.7) \<and>
     (severity r = ''medium'' \<longleftrightarrow> \<not> region_confidence r > 0.7) \<and>
     devices_within st (center r) (radius r) \<noteq> [] \<and>
     region_confidence r =
       np_mean (map (\<lambda>(d, pos). recent_anomaly st d) (devices_within st (center r) (radius r))) \<and>
     affected_devices r = map fst (devices_within st (center r) (radius r)) \<and>
     set (affected_devices r) =
       {d. \<exists>pos. map_of (device_positions st) d = Some pos \<and>
                  euclidean (pos_x pos, pos_y pos) (center r) \<le> radius r}"
    using sev nonempty conf aff members by blast
qed

subsection \<open>The regions of the sample fleet\<close>

lemma detect_on_sample:
  assumes "signal_history st dev =
     Some (map (example_measurement dev) [0, 0, 0, 0, 5, 100, 100, 100, 100, 100, 100, 100, 100, 100, 100])"
  shows "detect_signal_anomaly st dev (example_measurement dev 100) = 1"
  by (simp add: detect_signal_anomaly_def assms example_rssi Let_def
      np_std_baseline np_std_recent np_mean_baseline)

lemma recent_anomaly_on_sample:
  assumes "signal_history st dev =
     Some (map (example_measurement dev) [0, 0, 0, 0, 5, 100, 100, 100, 100, 100, 100, 100, 100, 100, 100])"
  shows "recent_anomaly st dev = 1"
  by (simp add: recent_anomaly_def assms detect_on_sample [OF assms] np_mean_def)

lemma example_fleet_history:
  "signal_history example_fleet ''dev_a'' =
     Some (map (example_measurement ''dev_a'') [0, 0, 0, 0, 5, 100, 100, 100, 100, 100, 100, 100, 100, 100, 100])"
  "signal_history example_fleet ''dev_b'' =
     Some (map (example_measurement ''dev_b'') [0, 0, 0, 0, 5, 100, 100, 100, 100, 100, 100, 100, 100, 100, 100])"
  "signal_history example_fleet ''dev_c'' = None"
  by (simp_all add: example_fleet_def with_history_def example_processor_def add_reference_point_def
      AdvancedSignalProcessor_init_def)

lemma example_fleet_scores:
  "recent_anomaly example_fleet ''dev_a'' = 1"
  "recent_anomaly example_fleet ''dev_b'' = 1"
  "recent_anomaly example_fleet ''dev_c'' = 0"
    apply (rule recent_anomaly_on_sample [OF example_fleet_history(1)])
   apply (rule recent_anomaly_on_sample [OF example_fleet_history(2)])
  apply (simp add: recent_anomaly_def example_fleet_history(3))
  done

lemma example_fleet_items:
  "dict_items (device_positions example_fleet) =
     [(''dev_a'', example_position ''dev_a'' 0 0),
      (''dev_b'', example_position ''dev_b'' 6 8),
      (''dev_c'', example_position ''dev_c'' 3 104)]"
  by (simp add: example_fleet_def with_history_def)

lemma euclidean_fleet:
  "euclidean (3, 4) (0, 0) = 5" "euclidean (3, 4) (6, 8) = 5"
  "euclidean (0, 0) (3, 4) = 5" "euclidean (6, 8) (3, 4) = 5"
  "euclidean (3, 104) (3, 4) = 100"
  unfolding euclidean_def by (rule real_sqrt_unique; simp)+

lemma example_position_fields:
  "pos_x (example_position d x y) = x" "pos_y (example_position d x y) = y"
  by (simp_all add: example_position_def)

lemma example_fleet_region:
  "fst (detect_anomaly_regions example_fleet (\<lambda>pts i. 0) 9) =
     [\<lparr>center = (3, 4), radius = 5, severity = ''high'', anomaly_type = ''signal_degradation'',
       region_confidence = 1, affected_devices = [''dev_a'', ''dev_b''], region_timestamp = 9\<rparr>]"
  by (simp add: detect_anomaly_regions_def example_fleet_items example_fleet_scores Let_def
      example_position_fields cluster_regions_def build_region_def np_mean_def py_max_def
      euclidean_fleet upt_conv_Cons)


lemma example_fleet_within:
  "devices_within example_fleet (3, 4) 5 =
     [(''dev_a'', example_position ''dev_a'' 0 0), (''dev_b'', example_position ''dev_b'' 6 8)]"
  by (simp add: devices_within_def example_fleet_items example_position_fields euclidean_fleet)

theorem anomaly_region_contents_witness:
  "\<lparr>center = (3, 4), radius = 5, severity = ''high'', anomaly_type = ''signal_degradation'',
     region_confidence = 1, affected_devices = [''dev_a'', ''dev_b''], region_timestamp = 9\<rparr>
     \<in> set (fst (detect_anomaly_regions example_fleet (\<lambda>pts i. 0) 9)) \<and>
   devices_within example_fleet (3, 4) 5 =
     [(''dev_a'', example_position ''dev_a'' 0 0), (''dev_b'', example_position ''dev_b'' 6 8)] \<and>
   np_mean (map (\<lambda>(d, pos). recent_anomaly example_fleet d) (devices_within example_fleet (3, 4) 5)) = 1 \<and>
   {d. \<exists>pos. map_of (device_positions example_fleet) d = Some pos \<and>
              euclidean (pos_x pos, pos_y pos) (3, 4) \<le> 5} = {''dev_a'', ''dev_b''}"
proof -
  let ?r = "\<lparr>center = (3, 4), radius = 5, severity = ''high'', anomaly_type = ''signal_degradation'',
     region_confidence = 1, affected_devices = [''dev_a'', ''dev_b''], region_timestamp = 9\<rparr>"
  have m: "?r \<in> set (fst (detect_anomaly_regions example_fleet (\<lambda>pts i. 0) 9))"
    by (simp add: example_fleet_region)
  from anomaly_region_contents [of example_fleet "\<lambda>pts i. 0" 9] m
  have "region_confidence ?r =
       np_mean (map (\<lambda>(d, pos). recent_anomaly example_fleet d)
         (devices_within example_fleet (center ?r) (radius ?r))) \<and>
     set (affected_devices ?r) =
       {d. \<exists>pos. map_of (device_positions example_fleet) d = Some pos \<and>
                  euclidean (pos_x pos, pos_y pos) (center ?r) \<le> radius ?r}"
    by blast
  then show ?thesis using m example_fleet_within by simp
qed

end
